theory Spec2Isabelle
  imports Complex_Main "HOL-Library.Log_Nat" "HOL-Library.Sublist" "HOL-Library.Monad_Syntax"
begin

section \<open>Numbers\<close>

text \<open>
  The program computes with Python floats. Two models of them are used.

  \<^item> The exact model: a float is a \<open>real\<close>, every operation is exact. Guards,
    comparisons, clamps and the ledger arithmetic are stated in it; overflow, infinities
    and NaN have no counterpart there.
  \<^item> The binary64 model (\<open>fl\<close> below): a finite double is the rational it denotes, and an
    operation is the exact operation followed by rounding to 53 significant bits, ties to
    even. The exponent is unbounded, so the model agrees with IEEE 754 arithmetic on the
    normal range and says nothing about subnormals or overflow.
\<close>

definition round_half_even :: "'a::floor_ceiling \<Rightarrow> int" where
  "round_half_even x =
     (let f = \<lfloor>x\<rfloor>; d = x - of_int f
      in if d < 1 / 2 then f else if 1 / 2 < d then f + 1 else if even f then f else f + 1)"

text \<open>\<open>round(x, 2)\<close> of Python on the exact value: nearest multiple of 0.01, ties to even.\<close>

definition py_round2 :: "real \<Rightarrow> real" where
  "py_round2 x = of_int (round_half_even (x * 100)) / 100"

text \<open>\<open>np.clip(a, a_min, a_max)\<close> is \<open>minimum(a_max, maximum(a, a_min))\<close>.\<close>

definition np_clip :: "real \<Rightarrow> real \<Rightarrow> real \<Rightarrow> real" where
  "np_clip a a_min a_max = min a_max (max a a_min)"

definition pow2 :: "int \<Rightarrow> rat" where
  "pow2 k = (if 0 \<le> k then 2 ^ nat k else 1 / 2 ^ nat (- k))"

text \<open>The \<open>e\<close> with \<open>2^e \<le> a < 2^(e+1)\<close>, for a positive rational \<open>a\<close>.\<close>

definition binary_exponent :: "rat \<Rightarrow> int" where
  "binary_exponent a =
     (let (n, d) = quotient_of a;
          e = int (floorlog 2 (nat n)) - int (floorlog 2 (nat d))
      in if pow2 e \<le> a then e else e - 1)"

text \<open>Rounding to the nearest binary64 value (53-bit significand, ties to even).\<close>

definition fl :: "rat \<Rightarrow> rat" where
  "fl x =
     (if x = 0 then 0
      else let a = \<bar>x\<bar>; s = pow2 (52 - binary_exponent a)
           in sgn x * of_int (round_half_even (a * s)) / s)"

section \<open>Python values\<close>

text \<open>
  An exception of the source is a value. \<open>Unmodelled\<close> marks a run that leaves the model:
  numpy yields an infinity or NaN (a logarithm of a non-positive number, a division by
  zero), or a JSON file holds a value whose type is not the one annotated for the field
  it is read into.
\<close>

datatype py_error = TypeError | AttributeError | ZeroDivisionError | ImportError | IndexError

datatype 'a outcome = Returns 'a | Raises py_error | Unmodelled

definition bind_outcome :: "'a outcome \<Rightarrow> ('a \<Rightarrow> 'b outcome) \<Rightarrow> 'b outcome" where
  "bind_outcome x f = (case x of Returns v \<Rightarrow> f v | Raises e \<Rightarrow> Raises e | Unmodelled \<Rightarrow> Unmodelled)"

definition or_unmodelled :: "'a option \<Rightarrow> 'a outcome" where
  "or_unmodelled x = (case x of None \<Rightarrow> Unmodelled | Some v \<Rightarrow> Returns v)"

text \<open>The slice \<open>xs[-k:]\<close>; \<open>xs[-0:]\<close> is the whole list, and a negative \<open>k\<close> drops from the front.\<close>

definition py_last :: "int \<Rightarrow> 'a list \<Rightarrow> 'a list" where
  "py_last k xs =
     (if 0 < k then drop (length xs - nat k) xs
      else if k = 0 then xs
      else drop (nat (- k)) xs)"

text \<open>\<open>np.diff\<close>, \<open>np.mean\<close> and \<open>np.std\<close> on one-dimensional arrays. The mean of an empty
  array is NaN: \<open>None\<close>.\<close>

definition np_diff :: "real list \<Rightarrow> real list" where
  "np_diff xs = map (\<lambda>(a, b). b - a) (zip xs (tl xs))"

definition np_mean :: "real list \<Rightarrow> real option" where
  "np_mean xs = (if xs = [] then None else Some (sum_list xs / real (length xs)))"

definition np_std :: "real list \<Rightarrow> real option" where
  "np_std xs =
     (case np_mean xs of
        None \<Rightarrow> None
      | Some m \<Rightarrow> map_option sqrt (np_mean (map (\<lambda>x. (x - m) ^ 2) xs)))"

section \<open>JSON values\<close>

text \<open>
  What \<open>json.dump\<close> writes and \<open>json.load\<close> reads back. The text of the file is not
  modelled: a file holds the JSON value that was dumped into it. A dict is an association
  list in insertion order.
\<close>

datatype json =
    JNull
  | JBool bool
  | JNum real
  | JStr string
  | JArr "json list"
  | JObj "(string \<times> json) list"

section \<open>Configuration (config.py)\<close>

definition KELLY_FRACTION :: real where "KELLY_FRACTION = 5 / 10"
definition MAX_SINGLE_BET_PCT :: real where "MAX_SINGLE_BET_PCT = 5 / 100"
definition MIN_EDGE_THRESHOLD :: real where "MIN_EDGE_THRESHOLD = 3 / 100"
definition MAX_OPEN_POSITIONS :: nat where "MAX_OPEN_POSITIONS = 10"
definition MIN_BET_SIZE_USD :: real where "MIN_BET_SIZE_USD = 1"
definition BTC_RSI_PERIOD :: int where "BTC_RSI_PERIOD = 14"
definition BTC_RSI_OVERSOLD :: real where "BTC_RSI_OVERSOLD = 30"
definition BTC_RSI_OVERBOUGHT :: real where "BTC_RSI_OVERBOUGHT = 70"

section \<open>Markets and signals\<close>

text \<open>
  A market is the dict the catalogue hands over: \<open>m_id\<close> is \<open>market.get("id", "")\<close>,
  \<open>m_question\<close> is \<open>market.get("question", "")\<close>, and \<open>m_token_ids\<close> the list that
  \<open>clobTokenIds\<close> decodes to (\<open>[]\<close> when it is absent or does not decode).
\<close>

record market =
  m_id :: string
  m_question :: string
  m_token_ids :: "string list"

text \<open>
  The signals of the two strategies. The \<open>reasoning\<close> string, which formats floats for
  the log, is left out. \<open>components\<close> and \<open>forecast_data\<close> are dicts. The fields
  \<open>target_price\<close>, \<open>direction\<close> and \<open>current_price\<close> of \<open>BTCSignal\<close> carry the prefix
  \<open>btc_\<close>, the names being taken by the parameters of the functions below.
\<close>

record BTCSignal =
  market_id :: string
  market_question :: string
  token_id :: string
  btc_target_price :: real
  btc_direction :: string
  btc_current_price :: real
  our_probability :: real
  market_probability :: real
  edge :: real
  recommended_side :: string
  components :: "(string \<times> real) list"

record WeatherSignal =
  market_id :: string
  market_question :: string
  token_id :: string
  our_probability :: real
  market_probability :: real
  edge :: real
  recommended_side :: string
  forecast_data :: "(string \<times> json) list"
  market_type :: string

section \<open>The risk manager (risk\_manager.py)\<close>

subsection \<open>Positions\<close>

record Position =
  market_id :: string
  market_question :: string
  token_id :: string
  side :: string
  entry_price :: real
  size_usd :: real
  shares :: real
  our_probability :: real
  market_probability :: real
  edge :: real
  kelly_fraction :: real
  strategy :: string
  reasoning :: string
  timestamp :: string
  status :: string

text \<open>
  \<open>Position.__post_init__\<close>: an empty timestamp is replaced by the clock reading
  \<open>now\<close> (the string \<open>datetime.now(timezone.utc).isoformat()\<close>).
\<close>

definition post_init :: "string \<Rightarrow> Position \<Rightarrow> Position" where
  "post_init now p = (if timestamp p = [] then p\<lparr>timestamp := now\<rparr> else p)"

text \<open>\<open>dataclasses.asdict\<close>: the fields in declaration order.\<close>

definition asdict :: "Position \<Rightarrow> json" where
  "asdict p = JObj
     [(''market_id'', JStr (market_id p)),
      (''market_question'', JStr (market_question p)),
      (''token_id'', JStr (token_id p)),
      (''side'', JStr (side p)),
      (''entry_price'', JNum (entry_price p)),
      (''size_usd'', JNum (size_usd p)),
      (''shares'', JNum (shares p)),
      (''our_probability'', JNum (our_probability p)),
      (''market_probability'', JNum (market_probability p)),
      (''edge'', JNum (edge p)),
      (''kelly_fraction'', JNum (kelly_fraction p)),
      (''strategy'', JStr (strategy p)),
      (''reasoning'', JStr (reasoning p)),
      (''timestamp'', JStr (timestamp p)),
      (''status'', JStr (status p))]"

subsection \<open>The manager and the files it writes\<close>

record RiskManager =
  bankroll :: real
  positions :: "Position list"
  trade_history :: "json list"

text \<open>
  \<open>state_file\<close> is \<open>LOG_DIR/state.json\<close> (\<open>None\<close>: the file does not exist),
  \<open>trade_log\<close> the lines of \<open>TRADE_LOG_FILE\<close>. Writes succeed: an \<open>OSError\<close> of the
  file system is not modelled.
\<close>

record disk =
  state_file :: "json option"
  trade_log :: "json list"

subsection \<open>Kelly criterion\<close>

text \<open>\<open>RiskManager.kelly_size\<close> in exact arithmetic; \<open>fraction = None\<close> is the default.\<close>

definition kelly_size :: "real \<Rightarrow> real \<Rightarrow> real option \<Rightarrow> real" where
  "kelly_size our_prob market_prob fraction_arg =
     (let fraction = (case fraction_arg of None \<Rightarrow> KELLY_FRACTION | Some f \<Rightarrow> f)
      in if market_prob \<le> 0 \<or> market_prob \<ge> 1 \<or> our_prob \<le> 0 \<or> our_prob \<ge> 1 then 0
         else let b = (1 / market_prob) - 1
              in if b \<le> 0 then 0
                 else let p = our_prob;
                          q = 1 - p;
                          kelly_full = (p * b - q) / b
                      in if kelly_full \<le> 0 then 0
                         else kelly_full * fraction)"

text \<open>
  The same body with the result of every float operation passed through \<open>rnd\<close>:
  \<open>rnd = fl\<close> is the binary64 evaluation, \<open>rnd = (\<lambda>x. x)\<close> the exact one. The
  arguments are doubles already.
\<close>

definition kelly_size_fp :: "('a::linordered_field \<Rightarrow> 'a) \<Rightarrow> 'a \<Rightarrow> 'a \<Rightarrow> 'a \<Rightarrow> 'a" where
  "kelly_size_fp rnd our_prob market_prob fraction =
     (if market_prob \<le> 0 \<or> market_prob \<ge> 1 \<or> our_prob \<le> 0 \<or> our_prob \<ge> 1 then 0
      else let b = rnd (rnd (1 / market_prob) - 1)
           in if b \<le> 0 then 0
              else let p = our_prob;
                       q = rnd (1 - p);
                       kelly_full = rnd (rnd (rnd (p * b) - q) / b)
                   in if kelly_full \<le> 0 then 0
                      else rnd (kelly_full * fraction))"

subsection \<open>Bet sizing\<close>

text \<open>
  The third component of the result of \<open>calculate_bet_size\<close> is a string in the source:
  empty when the bet is approved, a message otherwise. The messages format floats, so the
  model keeps which message it is and the number it shows.
\<close>

datatype rejection =
    Approved                      \<comment> \<open>the empty string\<close>
  | EdgeBelowThreshold real       \<comment> \<open>"Edge ... below threshold ..."\<close>
  | KellySaysDontBet              \<comment> \<open>"Kelly says don't bet (negative EV)"\<close>
  | BetBelowMinimum real          \<comment> \<open>"Bet size $... below minimum $..."\<close>
  | MaxOpenPositionsReached       \<comment> \<open>"Max open positions (...) reached"\<close>
  | TotalExposureExceeded         \<comment> \<open>"Total exposure would exceed 50% of bankroll"\<close>

definition open_positions :: "RiskManager \<Rightarrow> Position list" where
  "open_positions rm = filter (\<lambda>p. status p = ''open'') (positions rm)"

text \<open>
  \<open>RiskManager.calculate_bet_size\<close>. A method is a function from the manager and the disk
  to its result and the manager and disk it leaves.
\<close>

definition calculate_bet_size ::
  "RiskManager \<Rightarrow> disk \<Rightarrow> real \<Rightarrow> real \<Rightarrow> string
     \<Rightarrow> (real \<times> real \<times> rejection) \<times> RiskManager \<times> disk" where
  "calculate_bet_size rm fs our_prob market_prob strategy_arg =
     (let edge = our_prob - market_prob
      in if edge < MIN_EDGE_THRESHOLD then ((0, 0, EdgeBelowThreshold edge), rm, fs)
         else let kf = kelly_size our_prob market_prob None
              in if kf \<le> 0 then ((0, 0, KellySaysDontBet), rm, fs)
                 else let bet_usd = bankroll rm * kf;
                          max_bet = bankroll rm * MAX_SINGLE_BET_PCT;
                          bet_usd = (if bet_usd > max_bet then max_bet else bet_usd)
                      in if bet_usd < MIN_BET_SIZE_USD then ((0, kf, BetBelowMinimum bet_usd), rm, fs)
                         else let open_pos = open_positions rm
                              in if length open_pos \<ge> MAX_OPEN_POSITIONS
                                 then ((0, kf, MaxOpenPositionsReached), rm, fs)
                                 else let total_exposure = sum_list (map size_usd open_pos)
                                      in if total_exposure + bet_usd > bankroll rm * (5 / 10)
                                         then let remaining = bankroll rm * (5 / 10) - total_exposure
                                              in if remaining < MIN_BET_SIZE_USD
                                                 then ((0, kf, TotalExposureExceeded), rm, fs)
                                                 else ((py_round2 (min bet_usd remaining), kf, Approved), rm, fs)
                                         else ((py_round2 bet_usd, kf, Approved), rm, fs))"

subsection \<open>Persistence and the journal\<close>

definition save_state :: "RiskManager \<Rightarrow> disk \<Rightarrow> disk" where
  "save_state rm fs =
     fs\<lparr>state_file := Some (JObj
        [(''bankroll'', JNum (bankroll rm)),
         (''positions'', JArr (map asdict (positions rm))),
         (''trade_history'', JArr (trade_history rm))])\<rparr>"

text \<open>
  \<open>_log_trade(action, position, extra)\<close> appends one record to the journal; \<open>extra\<close> is
  the association list of the \<open>extra\<close> dict (\<open>[]\<close> for \<open>None\<close>), whose keys are new.
\<close>

definition log_trade :: "string \<Rightarrow> string \<Rightarrow> Position \<Rightarrow> (string \<times> json) list \<Rightarrow> disk \<Rightarrow> disk" where
  "log_trade now action position extra fs =
     fs\<lparr>trade_log := trade_log fs @
        [JObj ([(''action'', JStr action),
                (''timestamp'', JStr now),
                (''position'', asdict position)] @ extra)]\<rparr>"

subsection \<open>Opening and closing positions\<close>

text \<open>The arguments of \<open>open_position\<close>, which the callers pass by keyword.\<close>

record open_args =
  arg_market_id :: string
  arg_market_question :: string
  arg_token_id :: string
  arg_side :: string
  arg_entry_price :: real
  arg_size_usd :: real
  arg_our_prob :: real
  arg_market_prob :: real
  arg_strategy :: string
  arg_reasoning :: string

text \<open>
  \<open>RiskManager.open_position\<close>. \<open>now1\<close> is the clock reading of \<open>__post_init__\<close>,
  \<open>now2\<close> that of \<open>_log_trade\<close>.
\<close>

definition open_position ::
  "RiskManager \<Rightarrow> disk \<Rightarrow> string \<Rightarrow> string \<Rightarrow> open_args \<Rightarrow> Position \<times> RiskManager \<times> disk" where
  "open_position rm fs now1 now2 a =
     (let shares_v = (if arg_entry_price a > 0 then arg_size_usd a / arg_entry_price a else 0);
          edge_v = arg_our_prob a - arg_market_prob a;
          kf = kelly_size (arg_our_prob a) (arg_market_prob a) None;
          pos = post_init now1
            \<lparr>market_id = arg_market_id a,
             market_question = arg_market_question a,
             token_id = arg_token_id a,
             side = arg_side a,
             entry_price = arg_entry_price a,
             size_usd = arg_size_usd a,
             shares = shares_v,
             our_probability = arg_our_prob a,
             market_probability = arg_market_prob a,
             edge = edge_v,
             kelly_fraction = kf,
             strategy = arg_strategy a,
             reasoning = arg_reasoning a,
             timestamp = [],
             status = ''open''\<rparr>;
          rm1 = rm\<lparr>positions := positions rm @ [pos]\<rparr>;
          rm2 = rm1\<lparr>bankroll := bankroll rm1 - arg_size_usd a\<rparr>;
          fs1 = log_trade now2 ''OPEN'' pos [] fs;
          fs2 = save_state rm2 fs1
      in (pos, rm2, fs2))"

text \<open>
  The \<open>position\<close> argument of \<open>close_position\<close> is an object: either the one held at
  index \<open>i\<close> of \<open>self.positions\<close>, whose change of status is then seen in the list, or an
  object that the list does not hold.
\<close>

datatype pos_ref = InLedger nat | Detached Position

definition deref :: "RiskManager \<Rightarrow> pos_ref \<Rightarrow> Position option" where
  "deref rm r =
     (case r of
        InLedger i \<Rightarrow> (if i < length (positions rm) then Some (positions rm ! i) else None)
      | Detached p \<Rightarrow> Some p)"

definition store_ref :: "pos_ref \<Rightarrow> Position \<Rightarrow> RiskManager \<Rightarrow> RiskManager" where
  "store_ref r p rm =
     (case r of
        InLedger i \<Rightarrow> rm\<lparr>positions := (positions rm)[i := p]\<rparr>
      | Detached _ \<Rightarrow> rm)"

text \<open>
  \<open>RiskManager.close_position\<close>. The result is \<open>None\<close> when the reference names no
  object (an index beyond the list), which no Python call can pass. Otherwise it is the
  object after the call, the manager and the disk. \<open>now1\<close> is the clock reading of the
  history record, \<open>now2\<close> that of \<open>_log_trade\<close>.
\<close>

definition close_position ::
  "RiskManager \<Rightarrow> disk \<Rightarrow> string \<Rightarrow> string \<Rightarrow> pos_ref \<Rightarrow> real \<Rightarrow> real \<Rightarrow> string
     \<Rightarrow> (Position \<times> RiskManager \<times> disk) option" where
  "close_position rm fs now1 now2 r exit_price pnl reason =
     (case deref rm r of
        None \<Rightarrow> None
      | Some position0 \<Rightarrow>
          let position = position0\<lparr>status := ''closed''\<rparr>;
              rm1 = store_ref r position rm;
              rm2 = rm1\<lparr>bankroll := bankroll rm1 + (size_usd position + pnl)\<rparr>;
              history_record = JObj
                [(''action'', JStr ''CLOSE''),
                 (''reason'', JStr reason),
                 (''exit_price'', JNum exit_price),
                 (''pnl'', JNum pnl),
                 (''position'', asdict position),
                 (''timestamp'', JStr now1)];
              rm3 = rm2\<lparr>trade_history := trade_history rm2 @ [history_record]\<rparr>;
              fs1 = log_trade now2 ''CLOSE'' position
                      [(''pnl'', JNum pnl), (''reason'', JStr reason)] fs;
              fs2 = save_state rm3 fs1
          in Some (position, rm3, fs2))"

subsection \<open>Sequences of calls\<close>

datatype call =
    Open string string open_args
  | Close string string pos_ref real real string

fun run_call :: "call \<Rightarrow> RiskManager \<times> disk \<Rightarrow> (RiskManager \<times> disk) option" where
  "run_call (Open now1 now2 a) (rm, fs) = Some (snd (open_position rm fs now1 now2 a))"
| "run_call (Close now1 now2 r exit_price pnl reason) (rm, fs) =
     map_option snd (close_position rm fs now1 now2 r exit_price pnl reason)"

fun run_calls :: "call list \<Rightarrow> RiskManager \<times> disk \<Rightarrow> (RiskManager \<times> disk) option" where
  "run_calls [] w = Some w"
| "run_calls (c # cs) w = (case run_call c w of None \<Rightarrow> None | Some w' \<Rightarrow> run_calls cs w')"



subsection \<open>Loading the snapshot\<close>

definition Position_fields :: "string list" where
  "Position_fields =
     [''market_id'', ''market_question'', ''token_id'', ''side'', ''entry_price'', ''size_usd'',
      ''shares'', ''our_probability'', ''market_probability'', ''edge'', ''kelly_fraction'',
      ''strategy'', ''reasoning'', ''timestamp'', ''status'']"

text \<open>The fields without a default: all but \<open>timestamp\<close> and \<open>status\<close>.\<close>

definition Position_required :: "string list" where
  "Position_required = take 13 Position_fields"

definition dict_str :: "(string \<times> json) list \<Rightarrow> string \<Rightarrow> string option" where
  "dict_str kv k = (case map_of kv k of Some (JStr s) \<Rightarrow> Some s | _ \<Rightarrow> None)"

definition dict_num :: "(string \<times> json) list \<Rightarrow> string \<Rightarrow> real option" where
  "dict_num kv k = (case map_of kv k of Some (JNum x) \<Rightarrow> Some x | _ \<Rightarrow> None)"

text \<open>The values that Python's \<open>not\<close> takes for false.\<close>

definition json_falsy :: "json \<Rightarrow> bool" where
  "json_falsy v =
     (v = JNull \<or> v = JBool False \<or> v = JNum 0 \<or> v = JStr [] \<or> v = JArr [] \<or> v = JObj [])"

text \<open>
  The \<open>timestamp\<close> keyword: absent, it defaults to the empty string; a falsy value is
  replaced by \<open>__post_init__\<close> just as the empty string is.
\<close>

definition dict_timestamp :: "(string \<times> json) list \<Rightarrow> string option" where
  "dict_timestamp kv =
     (case map_of kv ''timestamp'' of
        None \<Rightarrow> Some []
      | Some (JStr s) \<Rightarrow> Some s
      | Some v \<Rightarrow> (if json_falsy v then Some [] else None))"

definition dict_status :: "(string \<times> json) list \<Rightarrow> string option" where
  "dict_status kv =
     (case map_of kv ''status'' of
        None \<Rightarrow> Some ''open''
      | Some (JStr s) \<Rightarrow> Some s
      | Some _ \<Rightarrow> None)"

text \<open>
  \<open>Position(**p)\<close>: a \<open>TypeError\<close> when \<open>p\<close> is not a dict, has a key that is not a field,
  or lacks a field without default. Python stores a value of any type in a field; the
  record cannot, so a dict with a number where a string is annotated (or the converse) is
  \<open>Unmodelled\<close>.
\<close>

definition Position_of_dict :: "string \<Rightarrow> json \<Rightarrow> Position outcome" where
  "Position_of_dict now p =
     (case p of
        JObj kv \<Rightarrow>
          if \<not> list_all (\<lambda>k. k \<in> set Position_fields) (map fst kv) then Raises TypeError
          else if \<not> list_all (\<lambda>k. k \<in> set (map fst kv)) Position_required then Raises TypeError
          else or_unmodelled (do {
            v_market_id \<leftarrow> dict_str kv ''market_id'';
            v_market_question \<leftarrow> dict_str kv ''market_question'';
            v_token_id \<leftarrow> dict_str kv ''token_id'';
            v_side \<leftarrow> dict_str kv ''side'';
            v_entry_price \<leftarrow> dict_num kv ''entry_price'';
            v_size_usd \<leftarrow> dict_num kv ''size_usd'';
            v_shares \<leftarrow> dict_num kv ''shares'';
            v_our_probability \<leftarrow> dict_num kv ''our_probability'';
            v_market_probability \<leftarrow> dict_num kv ''market_probability'';
            v_edge \<leftarrow> dict_num kv ''edge'';
            v_kelly_fraction \<leftarrow> dict_num kv ''kelly_fraction'';
            v_strategy \<leftarrow> dict_str kv ''strategy'';
            v_reasoning \<leftarrow> dict_str kv ''reasoning'';
            v_timestamp \<leftarrow> dict_timestamp kv;
            v_status \<leftarrow> dict_status kv;
            Some (post_init now
              \<lparr>market_id = v_market_id,
               market_question = v_market_question,
               token_id = v_token_id,
               side = v_side,
               entry_price = v_entry_price,
               size_usd = v_size_usd,
               shares = v_shares,
               our_probability = v_our_probability,
               market_probability = v_market_probability,
               edge = v_edge,
               kelly_fraction = v_kelly_fraction,
               strategy = v_strategy,
               reasoning = v_reasoning,
               timestamp = v_timestamp,
               status = v_status\<rparr>)
          })
      | _ \<Rightarrow> Raises TypeError)"

text \<open>
  \<open>[Position(**p) for p in ...]\<close> over a list: the first failure ends the comprehension.
  \<open>clock i\<close> is the clock reading that the \<open>i\<close>-th element's \<open>__post_init__\<close> would take.
\<close>

fun load_positions :: "(nat \<Rightarrow> string) \<Rightarrow> nat \<Rightarrow> json list \<Rightarrow> Position list outcome" where
  "load_positions clock i [] = Returns []"
| "load_positions clock i (p # ps) =
     (case Position_of_dict (clock i) p of
        Returns x \<Rightarrow>
          (case load_positions clock (Suc i) ps of
             Returns xs \<Rightarrow> Returns (x # xs)
           | Raises e \<Rightarrow> Raises e
           | Unmodelled \<Rightarrow> Unmodelled)
      | Raises e \<Rightarrow> Raises e
      | Unmodelled \<Rightarrow> Unmodelled)"

text \<open>
  The comprehension over whatever \<open>state.get("positions", [])\<close> is: a list is walked; an
  empty dict or string yields no element; a non-empty dict or string yields strings, on
  which \<open>Position(**p)\<close> raises; anything else is not iterable.
\<close>

definition comprehend_positions :: "(nat \<Rightarrow> string) \<Rightarrow> json \<Rightarrow> Position list outcome" where
  "comprehend_positions clock v =
     (case v of
        JArr ps \<Rightarrow> load_positions clock 0 ps
      | JObj kv \<Rightarrow> (if kv = [] then Returns [] else Raises TypeError)
      | JStr s \<Rightarrow> (if s = [] then Returns [] else Raises TypeError)
      | _ \<Rightarrow> Raises TypeError)"

text \<open>
  \<open>RiskManager._load_state\<close>. Every exception is caught and logged, and what was assigned
  before it stays assigned: the bankroll is read first. A bankroll that is not a number
  or a trade history that is not a list would be stored as it is: \<open>Unmodelled\<close>.
\<close>

definition load_state :: "(nat \<Rightarrow> string) \<Rightarrow> RiskManager \<Rightarrow> disk \<Rightarrow> RiskManager outcome" where
  "load_state clock rm fs =
     (case state_file fs of
        None \<Rightarrow> Returns rm
      | Some state \<Rightarrow>
          (case state of
             JObj kv \<Rightarrow>
               (case (case map_of kv ''bankroll'' of
                        None \<Rightarrow> Some (bankroll rm)
                      | Some (JNum b) \<Rightarrow> Some b
                      | Some _ \<Rightarrow> None) of
                  None \<Rightarrow> Unmodelled
                | Some b \<Rightarrow>
                    let rm1 = rm\<lparr>bankroll := b\<rparr>
                    in (case (case map_of kv ''positions'' of
                                None \<Rightarrow> Returns []
                              | Some v \<Rightarrow> comprehend_positions clock v) of
                          Raises e \<Rightarrow> Returns rm1
                        | Unmodelled \<Rightarrow> Unmodelled
                        | Returns ps \<Rightarrow>
                            let rm2 = rm1\<lparr>positions := ps\<rparr>
                            in (case map_of kv ''trade_history'' of
                                  None \<Rightarrow> Returns (rm2\<lparr>trade_history := []\<rparr>)
                                | Some (JArr h) \<Rightarrow> Returns (rm2\<lparr>trade_history := h\<rparr>)
                                | Some _ \<Rightarrow> Unmodelled)))
           | _ \<Rightarrow> Returns rm))"

text \<open>
  \<open>RiskManager.__init__\<close>. \<open>initial_bankroll\<close> is \<open>config.INITIAL_BANKROLL\<close>, read from the
  environment (1000 by default); \<open>bankroll or config.INITIAL_BANKROLL\<close> takes it for
  \<open>None\<close> and for 0.
\<close>

definition RiskManager_init ::
  "real \<Rightarrow> (nat \<Rightarrow> string) \<Rightarrow> real option \<Rightarrow> disk \<Rightarrow> RiskManager outcome" where
  "RiskManager_init initial_bankroll clock bankroll_arg fs =
     load_state clock
       \<lparr>bankroll = (case bankroll_arg of
                      None \<Rightarrow> initial_bankroll
                    | Some b \<Rightarrow> if b = 0 then initial_bankroll else b),
        positions = [],
        trade_history = []\<rparr> fs"

text \<open>
  \<open>datetime.isoformat()\<close> never yields the empty string: a call sequence is \<open>stamped\<close>
  when the clock readings its \<open>open_position\<close> calls hand to \<open>__post_init__\<close> are not empty.
\<close>

fun stamped :: "call \<Rightarrow> bool" where
  "stamped (Open now1 now2 a) = (now1 \<noteq> [])"
| "stamped (Close now1 now2 r exit_price pnl reason) = True"

definition all_stamped :: "RiskManager \<Rightarrow> bool" where
  "all_stamped rm = list_all (\<lambda>p. timestamp p \<noteq> []) (positions rm)"

section \<open>The BTC strategy (btc\_strategy.py)\<close>

subsection \<open>Feed data\<close>

text \<open>
  A row of the klines array, by the columns the strategy reads: 2 (high), 3 (low),
  4 (close) and 5 (volume). A trade print carries \<open>float(t.get("qty", 0))\<close> and
  \<open>t.get("isBuyerMaker", False)\<close>.
\<close>

record kline =
  high :: real
  low :: real
  close :: real
  volume :: real

record trade =
  qty :: real
  isBuyerMaker :: bool

text \<open>Indexing \<open>xs[j]\<close>: a negative index counts from the end.\<close>

definition py_index :: "'a list \<Rightarrow> int \<Rightarrow> 'a outcome" where
  "py_index xs j =
     (let n = int (length xs); i = (if j < 0 then n + j else j)
      in if 0 \<le> i \<and> i < n then Returns (xs ! nat i) else Raises IndexError)"

subsection \<open>Technical indicators\<close>

text \<open>\<open>BTCStrategy._calculate_rsi\<close>. The result \<open>None\<close> is NaN, the mean of an empty slice.\<close>

definition calculate_rsi :: "real list \<Rightarrow> int \<Rightarrow> real option" where
  "calculate_rsi closes period =
     (if int (length closes) < period + 1 then Some 50
      else let deltas = np_diff closes;
               gains = map (\<lambda>d. if d > 0 then d else 0) deltas;
               losses = map (\<lambda>d. if d < 0 then - d else 0) deltas
           in case (np_mean (py_last period gains), np_mean (py_last period losses)) of
                (Some avg_gain, Some avg_loss) \<Rightarrow>
                  if avg_loss = 0 then Some 100
                  else let rs = avg_gain / avg_loss
                       in Some (100 - (100 / (1 + rs)))
              | _ \<Rightarrow> None)"

text \<open>
  \<open>BTCStrategy._calculate_vwap\<close>. The four arrays are columns of one klines array and
  have one length; numpy's treatment of arrays of different shapes is not modelled.
\<close>

definition calculate_vwap :: "real list \<Rightarrow> real list \<Rightarrow> real list \<Rightarrow> real list \<Rightarrow> real outcome" where
  "calculate_vwap highs lows closes volumes =
     (let typical_price = map (\<lambda>(h, l, c). (h + l + c) / 3) (zip highs (zip lows closes));
          n = min 60 (length typical_price);
          tp = py_last (int n) typical_price;
          vol = py_last (int n) volumes;
          total_vol = sum_list vol
      in if total_vol = 0 then py_index closes (- 1)
         else Returns (sum_list (map (\<lambda>(t, v). t * v) (zip tp vol)) / total_vol))"

text \<open>
  \<open>BTCStrategy._calculate_volatility\<close>. The logarithm of a close that is not positive is
  an infinity or NaN.
\<close>

definition calculate_volatility :: "real list \<Rightarrow> int \<Rightarrow> real outcome" where
  "calculate_volatility closes lookback_arg =
     (let lookback = (if int (length closes) < lookback_arg + 1
                      then int (length closes) - 1 else lookback_arg)
      in if lookback < 2 then Returns (1 / 1000)
         else let window = py_last (lookback + 1) closes
              in if list_all (\<lambda>c. 0 < c) window
                 then or_unmodelled (np_std (np_diff (map ln window)))
                 else Unmodelled)"

text \<open>\<open>BTCStrategy._calculate_momentum\<close>. A numpy division by zero is an infinity or NaN.\<close>

definition calculate_momentum :: "real list \<Rightarrow> int \<Rightarrow> real outcome" where
  "calculate_momentum closes lookback =
     (if int (length closes) < lookback + 1 then Returns 0
      else bind_outcome (py_index closes (- 1)) (\<lambda>newest.
           bind_outcome (py_index closes (- lookback - 1)) (\<lambda>base.
             if base = 0 then Unmodelled else Returns ((newest - base) / base))))"

text \<open>\<open>BTCStrategy._analyze_order_flow\<close>.\<close>

definition analyze_order_flow :: "trade list \<Rightarrow> real" where
  "analyze_order_flow trades =
     (if trades = [] then 0
      else let sell_volume = sum_list (map qty (filter isBuyerMaker trades));
               buy_volume = sum_list (map qty (filter (\<lambda>t. \<not> isBuyerMaker t) trades));
               total = buy_volume + sell_volume
           in if total = 0 then 0 else (buy_volume - sell_volume) / total)"

subsection \<open>Probability estimation\<close>

text \<open>
  \<open>BTCStrategy._estimate_probability\<close>. \<open>norm_cdf\<close> is \<open>scipy.stats.norm.cdf\<close>, \<open>None\<close>
  when scipy is not installed: the "above" branch imports it outside its \<open>try\<close>, the
  "below" branch inside and then falls back to the sigmoid. \<open>current_price\<close> and
  \<open>target_price\<close> are Python floats, whose division by zero raises.
\<close>

definition estimate_probability ::
  "(real \<Rightarrow> real) option \<Rightarrow> real \<Rightarrow> real \<Rightarrow> string \<Rightarrow> real \<Rightarrow> real \<Rightarrow> real \<Rightarrow> real \<Rightarrow> real
     \<Rightarrow> real outcome" where
  "estimate_probability norm_cdf current_price target_price direction rsi vwap_deviation
       volatility momentum order_flow =
     (if current_price = 0 then Raises ZeroDivisionError
      else
        let distance = (target_price - current_price) / current_price;
            expected_move = volatility * sqrt 15;
            expected_move = (if expected_move < 1 / 10000 then 1 / 10000 else expected_move)
        in bind_outcome
             (if direction = ''above''
              then let z_score = distance / expected_move
                   in (case norm_cdf of
                         None \<Rightarrow> Raises ImportError
                       | Some cdf \<Rightarrow> Returns (1 - cdf z_score))
              else let z_score = - distance / expected_move
                   in (case norm_cdf of
                         Some cdf \<Rightarrow> Returns (1 - cdf z_score)
                       | None \<Rightarrow> Returns (1 / (1 + exp (z_score * 2)))))
             (\<lambda>base_prob.
                let adjustment = 0;
                    adjustment =
                      (if rsi < BTC_RSI_OVERSOLD
                       then let rsi_adj = (5 / 100) * (BTC_RSI_OVERSOLD - rsi) / BTC_RSI_OVERSOLD
                            in adjustment + (if direction = ''above'' then rsi_adj else - rsi_adj)
                       else if rsi > BTC_RSI_OVERBOUGHT
                       then let rsi_adj = (5 / 100) * (rsi - BTC_RSI_OVERBOUGHT)
                                            / (100 - BTC_RSI_OVERBOUGHT)
                            in adjustment + (if direction = ''above'' then - rsi_adj else rsi_adj)
                       else adjustment);
                    adjustment =
                      (if \<bar>vwap_deviation\<bar> > 1 / 1000
                       then let vwap_adj = - vwap_deviation * (5 / 10)
                            in adjustment + (if direction = ''above'' then vwap_adj else - vwap_adj)
                       else adjustment);
                    mom_adj = momentum * 10;
                    adjustment = adjustment + (if direction = ''above'' then mom_adj else - mom_adj);
                    flow_adj = order_flow * (3 / 100);
                    adjustment = adjustment + (if direction = ''above'' then flow_adj else - flow_adj);
                    our_prob = np_clip (base_prob + adjustment) (2 / 100) (98 / 100)
                in Returns our_prob))"

subsection \<open>Market analysis\<close>

text \<open>
  \<open>BTCStrategy.analyze_market\<close>. What the method fetches and parses is an argument:
  \<open>parsed\<close> is the result of \<open>_parse_btc_market(question)\<close> (\<open>None\<close> for
  \<open>(None, None)\<close>), \<open>price\<close> that of \<open>get_current_price()\<close>, \<open>klines\<close> that of
  \<open>get_klines\<close>, \<open>trades\<close> that of \<open>get_recent_trades\<close>. The parameter
  \<open>market_probability\<close> of the source is \<open>market_probability_arg\<close> here.
\<close>

definition analyze_market ::
  "(real \<Rightarrow> real) option \<Rightarrow> market \<Rightarrow> real \<Rightarrow> (real \<times> string) option \<Rightarrow> real option
     \<Rightarrow> kline list option \<Rightarrow> trade list option \<Rightarrow> BTCSignal option outcome" where
  "analyze_market norm_cdf market market_probability_arg parsed price klines trades =
     (case parsed of
        None \<Rightarrow> Returns None
      | Some (target_price, direction) \<Rightarrow>
     (case price of
        None \<Rightarrow> Returns None
      | Some current_price \<Rightarrow>
     (case klines of
        None \<Rightarrow> Returns None
      | Some rows \<Rightarrow>
          if length rows < 20 then Returns None
          else
            let closes = map close rows;
                highs = map high rows;
                lows = map low rows;
                volumes = map volume rows
            in bind_outcome (or_unmodelled (calculate_rsi closes BTC_RSI_PERIOD)) (\<lambda>rsi.
               bind_outcome (calculate_vwap highs lows closes volumes) (\<lambda>vwap.
               let vwap_deviation = (if vwap > 0 then (current_price - vwap) / vwap else 0)
               in bind_outcome (calculate_volatility closes 20) (\<lambda>volatility.
                  bind_outcome (calculate_momentum closes 10) (\<lambda>momentum.
                  let order_flow =
                        (case trades of
                           None \<Rightarrow> 0
                         | Some ts \<Rightarrow> if ts = [] then 0 else analyze_order_flow ts)
                  in bind_outcome
                       (estimate_probability norm_cdf current_price target_price direction rsi
                          vwap_deviation volatility momentum order_flow)
                       (\<lambda>our_prob.
                          let edge = our_prob - market_probability_arg;
                              (recommended_side, our_prob, market_probability, edge) =
                                (if edge > 0
                                 then (''YES'', our_prob, market_probability_arg, edge)
                                 else if (1 - our_prob) - (1 - market_probability_arg)
                                           > MIN_EDGE_THRESHOLD
                                 then (''NO'', 1 - our_prob, 1 - market_probability_arg,
                                       (1 - our_prob) - (1 - market_probability_arg))
                                 else (''YES'', our_prob, market_probability_arg, edge));
                              token_id = (case m_token_ids market of [] \<Rightarrow> [] | t # _ \<Rightarrow> t)
                          in Returns (Some
                               \<lparr>BTCSignal.market_id = m_id market,
                                BTCSignal.market_question = m_question market,
                                BTCSignal.token_id = token_id,
                                btc_target_price = target_price,
                                btc_direction = direction,
                                btc_current_price = current_price,
                                BTCSignal.our_probability = our_prob,
                                BTCSignal.market_probability = market_probability,
                                BTCSignal.edge = edge,
                                BTCSignal.recommended_side = recommended_side,
                                components =
                                  [(''rsi'', rsi),
                                   (''vwap_deviation'', vwap_deviation),
                                   (''volatility'', volatility),
                                   (''momentum'', momentum),
                                   (''order_flow'', order_flow)]\<rparr>)))))))))"

section \<open>The weather strategy (weather\_strategy.py)\<close>



subsection \<open>Temperature markets\<close>


subsection \<open>Precipitation markets\<close>


subsection \<open>Snow markets\<close>


section \<open>Names for the estimates of the weather analyses\<close>





section \<open>Names for steps of the BTC analysis\<close>

text \<open>The volume-weighted deviation feature, as \<open>analyze_market\<close> computes it from the VWAP.\<close>

definition vwap_deviation_feature :: "real \<Rightarrow> real \<Rightarrow> real" where
  "vwap_deviation_feature current_price vwap =
     (if vwap > 0 then (current_price - vwap) / vwap else 0)"

text \<open>The last step of \<open>analyze_market\<close>: the edge, the recommended side and the signal.\<close>

definition btc_signal ::
  "market \<Rightarrow> real \<Rightarrow> string \<Rightarrow> real \<Rightarrow> real \<Rightarrow> real \<Rightarrow> (string \<times> real) list \<Rightarrow> BTCSignal" where
  "btc_signal market target_price direction current_price our_prob0 market_probability0 readings =
     (let edge = our_prob0 - market_probability0;
          (recommended_side, our_prob, market_probability, edge) =
            (if edge > 0
             then (''YES'', our_prob0, market_probability0, edge)
             else if (1 - our_prob0) - (1 - market_probability0) > MIN_EDGE_THRESHOLD
             then (''NO'', 1 - our_prob0, 1 - market_probability0,
                   (1 - our_prob0) - (1 - market_probability0))
             else (''YES'', our_prob0, market_probability0, edge));
          token_id = (case m_token_ids market of [] \<Rightarrow> [] | t # _ \<Rightarrow> t)
      in \<lparr>BTCSignal.market_id = m_id market,
          BTCSignal.market_question = m_question market,
          BTCSignal.token_id = token_id,
          btc_target_price = target_price,
          btc_direction = direction,
          btc_current_price = current_price,
          BTCSignal.our_probability = our_prob,
          BTCSignal.market_probability = market_probability,
          BTCSignal.edge = edge,
          BTCSignal.recommended_side = recommended_side,
          components = readings\<rparr>)"



section \<open>Sample states and inputs\<close>

subsection \<open>Sample ledgers\<close>

text \<open>Concrete states and arguments at which the theorems below are instantiated.\<close>

definition fresh_manager :: RiskManager where
  "fresh_manager = \<lparr>bankroll = 1000, positions = [], trade_history = []\<rparr>"

definition empty_disk :: disk where
  "empty_disk = \<lparr>state_file = None, trade_log = []\<rparr>"

definition sample_args :: open_args where
  "sample_args =
     \<lparr>arg_market_id = ''m1'', arg_market_question = ''Will BTC be above $97,500?'',
      arg_token_id = ''t1'', arg_side = ''YES'', arg_entry_price = 5 / 10, arg_size_usd = 50,
      arg_our_prob = 65 / 100, arg_market_prob = 5 / 10, arg_strategy = ''btc'',
      arg_reasoning = ''r''\<rparr>"

definition sample_calls :: "call list" where
  "sample_calls =
     [Open ''2026-01-01T00:00:00+00:00'' ''2026-01-01T00:00:01+00:00'' sample_args,
      Close ''2026-01-02T00:00:00+00:00'' ''2026-01-02T00:00:01+00:00'' (InLedger 0) 1 5 ''resolved'']"

text \<open>A manager with bankroll 100.136 holding one open position of stake 45.06.\<close>

definition sample_position :: Position where
  "sample_position =
     \<lparr>market_id = ''m0'', market_question = ''q'', token_id = ''t0'', side = ''YES'',
      entry_price = 5 / 10, size_usd = 4506 / 100, shares = 9012 / 100,
      our_probability = 65 / 100, market_probability = 5 / 10, edge = 15 / 100,
      kelly_fraction = 15 / 100, strategy = ''btc'', reasoning = ''r'',
      timestamp = ''2026-01-01T00:00:00+00:00'', status = ''open''\<rparr>"

definition exposed_manager :: RiskManager where
  "exposed_manager =
     \<lparr>bankroll = 100136 / 1000, positions = [sample_position], trade_history = []\<rparr>"


subsection \<open>Sample markets and feeds\<close>

definition sample_market :: market where
  "sample_market = \<lparr>m_id = ''m1'', m_question = ''q'', m_token_ids = [''t1'', ''t2'']\<rparr>"

text \<open>Twenty bars at a price of 100 that traded no volume.\<close>

definition idle_klines :: "kline list" where
  "idle_klines = replicate 20 \<lparr>high = 100, low = 100, close = 100, volume = 0\<rparr>"




section \<open>The ledger: bankroll accounting\<close>





text \<open>\<open>close_position\<close> has no result only for a reference that names no object.\<close>

lemma close_position_None_iff:
  "close_position rm fs now1 now2 r exit_price pnl reason = None \<longleftrightarrow> deref rm r = None"
  by (simp add: close_position_def Let_def split: option.splits)






section \<open>Kelly sizing\<close>

text \<open>Without rounding, \<open>kelly_size_fp\<close> is \<open>kelly_size\<close>.\<close>

lemma kelly_size_fp_exact:
  "kelly_size_fp (\<lambda>x. x) our_prob market_prob fraction = kelly_size our_prob market_prob (Some fraction)"
  by (simp add: kelly_size_fp_def kelly_size_def Let_def)

text \<open>
  Claim C3. \<open>kelly_size\<close> returns 0 whenever \<open>our_prob \<le> 0\<close>, \<open>our_prob \<ge> 1\<close>,
  \<open>market_prob \<le> 0\<close> or \<open>market_prob \<ge> 1\<close>; whenever the net odds
  \<open>b = 1/market_prob - 1\<close> are not positive; and whenever the full Kelly fraction
  \<open>(our_prob * b - (1 - our_prob)) / b\<close> is not positive. The same holds when every
  operation is rounded (\<open>kelly_size_fp\<close>, for any rounding function), with \<open>b\<close> and the
  full Kelly fraction as the rounded evaluation computes them.
\<close>

theorem kelly_size_zero:
  "(our_prob \<le> 0 \<or> our_prob \<ge> 1 \<or> market_prob \<le> 0 \<or> market_prob \<ge> 1 \<longrightarrow>
      kelly_size our_prob market_prob fraction = 0)
   \<and> (1 / market_prob - 1 \<le> 0 \<longrightarrow> kelly_size our_prob market_prob fraction = 0)
   \<and> ((our_prob * (1 / market_prob - 1) - (1 - our_prob)) / (1 / market_prob - 1) \<le> 0 \<longrightarrow>
        kelly_size our_prob market_prob fraction = 0)
   \<and> (p \<le> 0 \<or> p \<ge> 1 \<or> m \<le> 0 \<or> m \<ge> 1 \<longrightarrow> kelly_size_fp rnd p m f = 0)
   \<and> (rnd (rnd (1 / m) - 1) \<le> 0 \<longrightarrow> kelly_size_fp rnd p m f = 0)
   \<and> (rnd (rnd (rnd (p * rnd (rnd (1 / m) - 1)) - rnd (1 - p)) / rnd (rnd (1 / m) - 1)) \<le> 0 \<longrightarrow>
        kelly_size_fp rnd p m f = 0)"
  by (simp add: kelly_size_def kelly_size_fp_def Let_def)

text \<open>
  Claim C3 at \<open>our_prob = 0\<close>; at \<open>market_prob = 1\<close>, where the net odds are 0; and at
  \<open>our_prob = 0.4\<close>, \<open>market_prob = 0.5\<close>, where the full Kelly fraction is negative.
\<close>

theorem kelly_size_zero_witness:
  "kelly_size 0 (1 / 2) None = 0
   \<and> 1 / (1::real) - 1 \<le> 0 \<and> kelly_size (6 / 10) 1 None = 0
   \<and> ((4 / 10) * (1 / (1 / 2) - 1) - (1 - 4 / 10)) / (1 / (1 / 2) - 1) \<le> (0::real)
   \<and> kelly_size (4 / 10) (1 / 2) (Some 1) = 0
   \<and> kelly_size_fp (\<lambda>x. x) (0::rat) (1 / 2) (1 / 2) = 0
   \<and> kelly_size_fp (\<lambda>x. x) (6 / 10 :: rat) 1 (1 / 2) = 0
   \<and> kelly_size_fp (\<lambda>x. x) (4 / 10 :: rat) (1 / 2) (1 / 2) = 0"
  using kelly_size_zero [of 0 "1 / 2" None "0::rat" "1 / 2" "\<lambda>x. x" "1 / 2"]
    kelly_size_zero [of "6 / 10" 1 None "6 / 10 :: rat" 1 "\<lambda>x. x" "1 / 2"]
    kelly_size_zero [of "4 / 10" "1 / 2" "Some 1" "4 / 10 :: rat" "1 / 2" "\<lambda>x. x" "1 / 2"]
  by simp

section \<open>Bet sizing\<close>

text \<open>
  Claim C10. \<open>calculate_bet_size\<close> is a query: on every path, approved or rejected, the
  manager (bankroll, position list, trade history) and the files are what they were
  before the call.
\<close>

theorem calculate_bet_size_frame:
  "snd (calculate_bet_size rm fs our_prob market_prob strategy_arg) = (rm, fs)"
  by (simp add: calculate_bet_size_def Let_def)

text \<open>
  Claim C2 fails on the code: the stake is capped and then rounded to cents, and the
  rounding can go up. On a bankroll of 100.136 with one open position of 45.06, the
  approved stake for \<open>our_prob = 0.65\<close>, \<open>market_prob = 0.5\<close> is 5.01: more than
  \<open>bankroll * MAX_SINGLE_BET_PCT = 5.0068\<close>, and it takes the open exposure to 50.07, more
  than half the bankroll, 50.068.
\<close>

theorem calculate_bet_size_rounds_past_caps:
  "fst (calculate_bet_size exposed_manager empty_disk (65 / 100) (5 / 10) ''btc'')
     = (501 / 100, 15 / 100, Approved)
   \<and> 501 / 100 > bankroll exposed_manager * MAX_SINGLE_BET_PCT
   \<and> sum_list (map size_usd (open_positions exposed_manager)) + 501 / 100
       > bankroll exposed_manager * (5 / 10)"
  by (simp add: calculate_bet_size_def kelly_size_def Let_def exposed_manager_def
        sample_position_def open_positions_def MIN_EDGE_THRESHOLD_def KELLY_FRACTION_def
        MAX_SINGLE_BET_PCT_def MIN_BET_SIZE_USD_def MAX_OPEN_POSITIONS_def py_round2_def
        round_half_even_def)

text \<open>
  What the code does keep: the amount before rounding is within both caps, and rounding
  moves it by at most half a cent.
\<close>

lemma py_round2_near: "\<bar>py_round2 x - x\<bar> \<le> 5 / 1000"
proof -
  define y where "y = x * 100"
  have "\<bar>of_int (round_half_even y) - y\<bar> \<le> 1 / 2"
    unfolding round_half_even_def Let_def by (auto simp: abs_le_iff)
  then have "\<bar>of_int (round_half_even y) / 100 - y / 100\<bar> \<le> (1 / 2) / 100"
    by (simp add: abs_le_iff field_simps)
  then show ?thesis by (simp add: py_round2_def y_def)
qed

lemma calculate_bet_size_unrounded_caps:
  assumes "fst (calculate_bet_size rm fs our_prob market_prob strategy_arg) = (stake, kf, Approved)"
  shows "\<exists>bet. stake = py_round2 bet
           \<and> MIN_BET_SIZE_USD \<le> bet
           \<and> bet \<le> bankroll rm * MAX_SINGLE_BET_PCT
           \<and> sum_list (map size_usd (open_positions rm)) + bet \<le> bankroll rm * (5 / 10)"
  using assms
  by (auto simp: calculate_bet_size_def Let_def min_def split: if_splits)

section \<open>Rounding to binary64\<close>

lemma floor_rat_numeral [simp]:
  "\<lfloor>(numeral a / numeral b :: rat)\<rfloor> = numeral a div numeral b"
  using floor_divide_of_int_eq [of "numeral a" "numeral b", where ?'a = rat] by simp

lemma pow2_powi: "pow2 k = 2 powi k"
  by (simp add: pow2_def power_int_def inverse_eq_divide power_one_over)

lemma binary_exponent_bounds:
  assumes "0 < a"
  shows "2 powi (binary_exponent a) \<le> a \<and> a < 2 powi (binary_exponent a + 1)"
proof -
  obtain n d where q: "quotient_of a = (n, d)" by (cases "quotient_of a")
  have d: "0 < d" using q by (rule quotient_of_denom_pos)
  have a: "a = of_int n / of_int d" using q by (simp add: quotient_of_div)
  have n: "0 < n" using assms d a by (simp add: zero_less_divide_iff)
  define bn where "bn = floorlog 2 (nat n)"
  define bd where "bd = floorlog 2 (nat d)"
  have nb: "2 ^ (bn - 1) \<le> nat n \<and> nat n < 2 ^ bn"
    unfolding bn_def using floorlog_bounds [of "nat n" 2] n by simp
  have db: "2 ^ (bd - 1) \<le> nat d \<and> nat d < 2 ^ bd"
    unfolding bd_def using floorlog_bounds [of "nat d" 2] d by simp
  have bn1: "1 \<le> bn" using n by (simp add: bn_def floorlog_def)
  have bd1: "1 \<le> bd" using d by (simp add: bd_def floorlog_def)
  have n_lo: "(2::rat) ^ (bn - 1) \<le> of_int n"
  proof -
    have "int (2 ^ (bn - 1)) \<le> int (nat n)" using nb by (simp only: of_nat_le_iff)
    then have "(2::int) ^ (bn - 1) \<le> n" using n by simp
    then have "(of_int ((2::int) ^ (bn - 1)) :: rat) \<le> of_int n" by (simp only: of_int_le_iff)
    then show ?thesis by simp
  qed
  have d_lo: "(2::rat) ^ (bd - 1) \<le> of_int d"
  proof -
    have "int (2 ^ (bd - 1)) \<le> int (nat d)" using db by (simp only: of_nat_le_iff)
    then have "(2::int) ^ (bd - 1) \<le> d" using d by simp
    then have "(of_int ((2::int) ^ (bd - 1)) :: rat) \<le> of_int d" by (simp only: of_int_le_iff)
    then show ?thesis by simp
  qed
  have n_hi: "of_int n < (2::rat) ^ bn"
  proof -
    have "int (nat n) < int (2 ^ bn)" using nb by (simp only: of_nat_less_iff)
    then have "n < (2::int) ^ bn" using n by simp
    then have "(of_int n :: rat) < of_int ((2::int) ^ bn)" by (simp only: of_int_less_iff)
    then show ?thesis by simp
  qed
  have d_hi: "of_int d < (2::rat) ^ bd"
  proof -
    have "int (nat d) < int (2 ^ bd)" using db by (simp only: of_nat_less_iff)
    then have "d < (2::int) ^ bd" using d by simp
    then have "(of_int d :: rat) < of_int ((2::int) ^ bd)" by (simp only: of_int_less_iff)
    then show ?thesis by simp
  qed
  define e where "e = int bn - int bd"
  have dpos: "(0::rat) < of_int d" using d by simp
  have hi: "a < 2 powi (e + 1)"
  proof -
    have "of_int n < (2::rat) powi (int bn)" using n_hi by simp
    also have "int bn = (e + 1) + (int bd - 1)" by (simp add: e_def)
    also have "(2::rat) powi ((e + 1) + (int bd - 1)) = 2 powi (e + 1) * 2 powi (int bd - 1)"
      by (rule power_int_add) simp
    also have "(2::rat) powi (int bd - 1) = 2 ^ (bd - 1)"
      using bd1 by (simp add: power_int_def nat_diff_distrib')
    also have "2 powi (e + 1) * (2::rat) ^ (bd - 1) \<le> 2 powi (e + 1) * of_int d"
      using d_lo by (simp add: mult_left_mono)
    finally show ?thesis using dpos by (simp add: a pos_divide_less_eq)
  qed
  have lo: "2 powi (e - 1) < a"
  proof -
    have "2 powi (e - 1) * of_int d < 2 powi (e - 1) * (2::rat) ^ bd"
      using d_hi by (simp add: mult_strict_left_mono)
    also have "(2::rat) ^ bd = 2 powi (int bd)" by simp
    also have "2 powi (e - 1) * (2::rat) powi (int bd) = 2 powi ((e - 1) + int bd)"
      by (rule power_int_add [symmetric]) simp
    also have "(e - 1) + int bd = int bn - 1" by (simp add: e_def)
    also have "(2::rat) powi (int bn - 1) = 2 ^ (bn - 1)"
      using bn1 by (simp add: power_int_def nat_diff_distrib')
    also have "\<dots> \<le> of_int n" by (rule n_lo)
    finally show ?thesis using dpos by (simp add: a pos_less_divide_eq)
  qed
  have be: "binary_exponent a = (if 2 powi e \<le> a then e else e - 1)"
    by (simp add: binary_exponent_def q pow2_powi e_def bn_def bd_def Let_def)
  show ?thesis
  proof (cases "2 powi e \<le> a")
    case True
    then show ?thesis using be hi by simp
  next
    case False
    then show ?thesis using be lo by simp
  qed
qed

lemma binary_exponent_unique:
  assumes "0 < a" and "2 powi e \<le> a" and "a < 2 powi (e + 1)"
  shows "binary_exponent a = e"
proof -
  let ?b = "binary_exponent a"
  have b: "2 powi ?b \<le> a" "a < 2 powi (?b + 1)"
    using binary_exponent_bounds [OF assms(1)] by simp_all
  have "(2::rat) powi e < 2 powi (?b + 1)" using assms(2) b(2) by simp
  then have 1: "e < ?b + 1"
    using power_int_increasing [of "?b + 1" e "2::rat"] by (cases "e < ?b + 1") simp_all
  have "(2::rat) powi ?b < 2 powi (e + 1)" using assms(3) b(1) by simp
  then have 2: "?b < e + 1"
    using power_int_increasing [of "e + 1" ?b "2::rat"] by (cases "?b < e + 1") simp_all
  show ?thesis using 1 2 by simp
qed

lemma fl_eq:
  assumes "x \<noteq> 0" and "2 powi e \<le> \<bar>x\<bar>" and "\<bar>x\<bar> < 2 powi (e + 1)"
  shows "fl x = sgn x * of_int (round_half_even (\<bar>x\<bar> * 2 powi (52 - e))) / 2 powi (52 - e)"
proof -
  have "binary_exponent \<bar>x\<bar> = e"
    using assms by (intro binary_exponent_unique) simp_all
  then show ?thesis using assms(1) by (simp add: fl_def pow2_powi Let_def)
qed

lemmas fl_simps = round_half_even_def power_int_minus_divide Let_def

lemma fl_1: "fl 1 = 1"
  using fl_eq [of 1 0] by (simp add: fl_simps)

lemma fl_2: "fl 2 = 2"
  using fl_eq [of 2 1] by (simp add: fl_simps)

lemma fl_half: "fl (5 / 10) = 1 / 2"
  using fl_eq [of "5 / 10" "- 1"] by (simp add: fl_simps)

lemma fl_06: "fl (6 / 10) = 5404319552844595 / 2 ^ 53"
  using fl_eq [of "6 / 10" "- 1"] by (simp add: fl_simps)

lemma fl_01: "fl (1 / 10) = 7205759403792794 / 2 ^ 56"
  using fl_eq [of "1 / 10" "- 4"] by (simp add: fl_simps)

lemma fl_02: "fl (2 / 10) = 7205759403792794 / 2 ^ 55"
  using fl_eq [of "2 / 10" "- 3"] by (simp add: fl_simps)

lemma fl_inv_half: "fl (1 / (1 / 2)) = 2"
  using fl_2 by simp

lemma fl_2m1: "fl (2 - 1) = 1"
  using fl_1 by simp

lemma fl_p: "fl (5404319552844595 / 2 ^ 53 * 1) = 5404319552844595 / 2 ^ 53"
  using fl_eq [of "5404319552844595 / 2 ^ 53" "- 1"] by (simp add: fl_simps)

lemma fl_q: "fl (1 - 5404319552844595 / 2 ^ 53) = 7205759403792794 / 2 ^ 54"
  using fl_eq [of "1 - 5404319552844595 / 2 ^ 53" "- 2"] by (simp add: fl_simps)

lemma fl_full: "fl (5404319552844595 / 2 ^ 53 - 7205759403792794 / 2 ^ 54) = 7205759403792792 / 2 ^ 55"
  using fl_eq [of "5404319552844595 / 2 ^ 53 - 7205759403792794 / 2 ^ 54" "- 3"] by (simp add: fl_simps)

lemma fl_full_div: "fl (7205759403792792 / 2 ^ 55 / 1) = 7205759403792792 / 2 ^ 55"
  using fl_eq [of "7205759403792792 / 2 ^ 55" "- 3"] by (simp add: fl_simps)

lemma fl_sized: "fl (7205759403792792 / 2 ^ 55 * (1 / 2)) = 7205759403792792 / 2 ^ 56"
  using fl_eq [of "7205759403792792 / 2 ^ 55 * (1 / 2)" "- 4"] by (simp add: fl_simps)

lemma kelly_size_fp_eval:
  assumes "0 < m" "m < 1" "0 < p" "p < 1"
    and "rnd (1 / m) = x1" "rnd (x1 - 1) = b" "0 < b"
    and "rnd (p * b) = x2" "rnd (1 - p) = q" "rnd (x2 - q) = x3" "rnd (x3 / b) = kf" "0 < kf"
    and "rnd (kf * f) = r"
  shows "kelly_size_fp rnd p m f = r"
  using assms by (simp add: kelly_size_fp_def Let_def)

lemma kelly_size_binary64:
  "kelly_size_fp fl (fl (6 / 10)) (fl (5 / 10)) (fl (5 / 10)) = 7205759403792792 / 2 ^ 56"
  unfolding fl_half fl_06
proof (rule kelly_size_fp_eval)
  show "fl (1 / (1 / 2)) = 2" by (rule fl_inv_half)
  show "fl (2 - 1) = 1" by (rule fl_2m1)
  show "fl (5404319552844595 / 2 ^ 53 * 1) = 5404319552844595 / 2 ^ 53" by (rule fl_p)
  show "fl (1 - 5404319552844595 / 2 ^ 53) = 7205759403792794 / 2 ^ 54" by (rule fl_q)
  show "fl (5404319552844595 / 2 ^ 53 - 7205759403792794 / 2 ^ 54) = 7205759403792792 / 2 ^ 55"
    by (rule fl_full)
  show "fl (7205759403792792 / 2 ^ 55 / 1) = 7205759403792792 / 2 ^ 55" by (rule fl_full_div)
  show "fl (7205759403792792 / 2 ^ 55 * (1 / 2)) = 7205759403792792 / 2 ^ 56" by (rule fl_sized)
qed simp_all

text \<open>
  Claim C7, as the code evaluates it. With the doubles nearest to 0.6 and 0.5 as arguments,
  \<open>b\<close> is exactly 1, but \<open>p * b - q\<close> is the double \<open>0.19999999999999996\<close> and the result
  the double \<open>0.09999999999999998\<close>, which is not the double nearest to 0.1.
\<close>

theorem kelly_size_example_not_a_tenth:
  "kelly_size_fp fl (fl (6 / 10)) (fl (5 / 10)) (fl (5 / 10)) \<noteq> fl (1 / 10)"
  unfolding kelly_size_binary64 fl_01 by simp

text \<open>
  Claim C7, amended. For \<open>our_prob = 0.6\<close>, \<open>market_prob = 0.5\<close> and \<open>fraction = 0.5\<close>: in
  exact arithmetic the net odds are 1, the full Kelly fraction is 0.2 and \<open>kelly_size\<close>
  returns 0.1; in binary64 the net odds are exactly 1 and \<open>kelly_size\<close> returns
  \<open>7205759403792792 / 2^56\<close> (printed \<open>0.09999999999999998\<close>), two units in the last place
  below the double nearest to 0.1, which is \<open>7205759403792794 / 2^56\<close>.
\<close>

theorem kelly_size_example:
  "1 / (5 / 10) - 1 = (1::real)
   \<and> ((6 / 10) * 1 - (1 - 6 / 10)) / 1 = (2 / 10 :: real)
   \<and> kelly_size (6 / 10) (5 / 10) (Some (5 / 10)) = 1 / 10
   \<and> fl (fl (1 / fl (5 / 10)) - 1) = 1
   \<and> kelly_size_fp fl (fl (6 / 10)) (fl (5 / 10)) (fl (5 / 10)) = 7205759403792792 / 2 ^ 56
   \<and> fl (1 / 10) = 7205759403792794 / 2 ^ 56"
proof -
  have "kelly_size (6 / 10) (5 / 10) (Some (5 / 10)) = 1 / 10"
    by (simp add: kelly_size_def Let_def)
  moreover have "fl (fl (1 / fl (5 / 10)) - 1) = 1"
    unfolding fl_half fl_inv_half by (rule fl_2m1)
  ultimately show ?thesis
    using kelly_size_binary64 fl_01 by simp
qed

section \<open>Persistence: saving and loading the snapshot\<close>

lemma Position_of_dict_asdict:
  assumes "timestamp p \<noteq> []"
  shows "Position_of_dict now (asdict p) = Returns p"
  using assms
  by (simp add: Position_of_dict_def asdict_def Position_fields_def Position_required_def
        dict_str_def dict_num_def dict_timestamp_def dict_status_def or_unmodelled_def
        post_init_def)

lemma load_positions_asdict:
  "list_all (\<lambda>p. timestamp p \<noteq> []) ps \<Longrightarrow> load_positions clock i (map asdict ps) = Returns ps"
  by (induction ps arbitrary: i) (simp_all add: Position_of_dict_asdict)

lemma load_state_save_state:
  assumes "list_all (\<lambda>p. timestamp p \<noteq> []) (positions rm)"
  shows "load_state clock rm0 (save_state rm fs) =
           Returns (rm0\<lparr>bankroll := bankroll rm, positions := positions rm,
                        trade_history := trade_history rm\<rparr>)"
  using assms
  by (simp add: load_state_def save_state_def comprehend_positions_def load_positions_asdict)

lemma Position_of_dict_stamped:
  assumes "Position_of_dict now p = Returns x" and "now \<noteq> []"
  shows "timestamp x \<noteq> []"
proof (cases p)
  case (JObj kv)
  with assms(1) obtain q where "x = post_init now q"
    by (auto simp: Position_of_dict_def or_unmodelled_def split: if_splits option.splits
          Option.bind_splits)
  then show ?thesis using assms(2) by (simp add: post_init_def)
qed (use assms(1) in \<open>simp_all add: Position_of_dict_def\<close>)

lemma load_positions_stamped:
  "load_positions clock i js = Returns ps \<Longrightarrow> (\<And>k. clock k \<noteq> []) \<Longrightarrow>
     list_all (\<lambda>p. timestamp p \<noteq> []) ps"
proof (induction js arbitrary: i ps)
  case Nil
  then show ?case by simp
next
  case (Cons j js)
  from Cons.prems(1) obtain x xs where x: "Position_of_dict (clock i) j = Returns x"
    and xs: "load_positions clock (Suc i) js = Returns xs" and ps: "ps = x # xs"
    by (auto split: outcome.splits)
  show ?case
    using Position_of_dict_stamped [OF x Cons.prems(2)] Cons.IH [OF xs Cons.prems(2)] ps by simp
qed

lemma load_state_stamped:
  assumes "load_state clock rm fs = Returns rm'" and "\<And>k. clock k \<noteq> []" and "all_stamped rm"
  shows "all_stamped rm'"
  using assms(1,3) load_positions_stamped [OF _ assms(2)]
  by (auto simp: load_state_def all_stamped_def comprehend_positions_def Let_def
        split: option.splits json.splits outcome.splits if_splits)

lemma run_call_stamped:
  assumes "run_call c (rm, fs) = Some (rm', fs')" and "stamped c" and "all_stamped rm"
  shows "all_stamped rm'"
proof (cases c)
  case (Open now1 now2 a)
  then show ?thesis using assms
    by (auto simp: open_position_def Let_def all_stamped_def post_init_def)
next
  case (Close now1 now2 r exit_price pnl reason)
  then obtain p where "close_position rm fs now1 now2 r exit_price pnl reason = Some (p, rm', fs')"
    using assms(1) by auto
  then show ?thesis using assms(3)
    by (auto simp: close_position_def Let_def all_stamped_def store_ref_def deref_def
          list_all_length nth_list_update
          split: option.splits pos_ref.splits if_splits)
qed

lemma run_calls_stamped:
  "run_calls cs (rm, fs) = Some (rm', fs') \<Longrightarrow> list_all stamped cs \<Longrightarrow> all_stamped rm \<Longrightarrow>
     all_stamped rm'"
proof (induction cs arbitrary: rm fs)
  case Nil
  then show ?case by simp
next
  case (Cons c cs)
  then obtain rm1 fs1 where 1: "run_call c (rm, fs) = Some (rm1, fs1)"
    and 2: "run_calls cs (rm1, fs1) = Some (rm', fs')"
    by (auto split: option.splits)
  have "all_stamped rm1" using run_call_stamped [OF 1] Cons.prems by simp
  then show ?case using Cons.IH [OF 2] Cons.prems by simp
qed

text \<open>
  Claim C9. Take any state that a manager reaches: constructed by \<open>__init__\<close> (which may
  load a snapshot) and driven through any sequence of \<open>open_position\<close> and
  \<open>close_position\<close> calls. Saving it with \<open>_save_state\<close> and loading the file with
  \<open>_load_state\<close>, into any manager, yields the same bankroll, the same list of positions
  in the same order with every field equal, and the same trade history. The clock never
  reads as the empty string.
\<close>

theorem save_load_roundtrip:
  assumes "RiskManager_init initial_bankroll clock0 bankroll_arg fs0 = Returns rm0"
    and "\<forall>k. clock0 k \<noteq> []"
    and "run_calls cs (rm0, fs0) = Some (rm, fs)"
    and "list_all stamped cs"
  shows "\<exists>rm'. load_state clock rm1 (save_state rm fs) = Returns rm'
           \<and> bankroll rm' = bankroll rm
           \<and> positions rm' = positions rm
           \<and> trade_history rm' = trade_history rm"
proof -
  have "all_stamped rm0"
    using load_state_stamped [OF assms(1) [unfolded RiskManager_init_def]] assms(2)
    by (simp add: all_stamped_def)
  then have "all_stamped rm" using run_calls_stamped [OF assms(3,4)] by simp
  then show ?thesis
    using load_state_save_state [of rm clock rm1 fs] by (simp add: all_stamped_def)
qed

text \<open>
  Claim C9 on a manager constructed with no snapshot on disk, after the sample calls: the
  reloaded bankroll is 1005 and the one position comes back.
\<close>

theorem save_load_roundtrip_witness:
  "RiskManager_init 1000 (\<lambda>k. ''2026-01-01T00:00:00+00:00'') None empty_disk = Returns fresh_manager
   \<and> (\<forall>k. (\<lambda>k. ''2026-01-01T00:00:00+00:00'') k \<noteq> [])
   \<and> list_all stamped sample_calls
   \<and> (\<exists>rm fs rm'.
        run_calls sample_calls (fresh_manager, empty_disk) = Some (rm, fs)
        \<and> load_state (\<lambda>k. ''2026-01-03T00:00:00+00:00'') fresh_manager (save_state rm fs) = Returns rm'
        \<and> bankroll rm' = 1005
        \<and> positions rm' = positions rm
        \<and> length (positions rm') = 1)"
proof -
  let ?clock = "\<lambda>k::nat. ''2026-01-01T00:00:00+00:00''"
  have i: "RiskManager_init 1000 ?clock None empty_disk = Returns fresh_manager"
    by (simp add: RiskManager_init_def load_state_def empty_disk_def fresh_manager_def)
  have c: "\<forall>k. ?clock k \<noteq> []" by simp
  have s: "list_all stamped sample_calls" by (simp add: sample_calls_def)
  have "\<exists>rm fs. run_calls sample_calls (fresh_manager, empty_disk) = Some (rm, fs)
          \<and> bankroll rm = 1005 \<and> length (positions rm) = 1"
    by (simp add: sample_calls_def close_position_def open_position_def deref_def store_ref_def
          Let_def fresh_manager_def sample_args_def post_init_def)
  then obtain rm fs where r: "run_calls sample_calls (fresh_manager, empty_disk) = Some (rm, fs)"
    and b: "bankroll rm = 1005" and l: "length (positions rm) = 1" by blast
  from save_load_roundtrip [OF i c r s, of "\<lambda>k. ''2026-01-03T00:00:00+00:00''" fresh_manager]
  obtain rm' where
    "load_state (\<lambda>k. ''2026-01-03T00:00:00+00:00'') fresh_manager (save_state rm fs) = Returns rm'"
    "bankroll rm' = bankroll rm" "positions rm' = positions rm" by blast
  then show ?thesis using i s r b l by auto
qed

section \<open>The weather analyses, step by step\<close>





lemma np_clip_bounds: "lo \<le> hi \<Longrightarrow> lo \<le> np_clip x lo hi \<and> np_clip x lo hi \<le> hi"
  by (simp add: np_clip_def)






section \<open>The BTC analysis, step by step\<close>


lemma btc_tail:
  "(let edge = raw - m;
        (recommended_side, our_prob, market_probability, edge) =
          (if edge > 0
           then (''YES'', raw, m, edge)
           else if (1 - raw) - (1 - m) > MIN_EDGE_THRESHOLD
           then (''NO'', 1 - raw, 1 - m, (1 - raw) - (1 - m))
           else (''YES'', raw, m, edge));
        token_id = (case m_token_ids market of [] \<Rightarrow> [] | t # _ \<Rightarrow> t)
    in Returns (Some
         \<lparr>BTCSignal.market_id = m_id market,
          BTCSignal.market_question = m_question market,
          BTCSignal.token_id = token_id,
          btc_target_price = target_price,
          btc_direction = direction,
          btc_current_price = current_price,
          BTCSignal.our_probability = our_prob,
          BTCSignal.market_probability = market_probability,
          BTCSignal.edge = edge,
          BTCSignal.recommended_side = recommended_side,
          components = readings\<rparr>))
   = Returns (Some (btc_signal market target_price direction current_price raw m readings))"
  by (simp add: btc_signal_def Let_def)

lemma analyze_market_folded:
  "analyze_market norm_cdf market market_probability_arg parsed price klines trades =
     (case parsed of
        None \<Rightarrow> Returns None
      | Some (target_price, direction) \<Rightarrow>
     (case price of
        None \<Rightarrow> Returns None
      | Some current_price \<Rightarrow>
     (case klines of
        None \<Rightarrow> Returns None
      | Some rows \<Rightarrow>
          if length rows < 20 then Returns None
          else
            let closes = map close rows;
                highs = map high rows;
                lows = map low rows;
                volumes = map volume rows
            in bind_outcome (or_unmodelled (calculate_rsi closes BTC_RSI_PERIOD)) (\<lambda>rsi.
               bind_outcome (calculate_vwap highs lows closes volumes) (\<lambda>vwap.
               let vwap_deviation = vwap_deviation_feature current_price vwap
               in bind_outcome (calculate_volatility closes 20) (\<lambda>volatility.
                  bind_outcome (calculate_momentum closes 10) (\<lambda>momentum.
                  let order_flow =
                        (case trades of
                           None \<Rightarrow> 0
                         | Some ts \<Rightarrow> if ts = [] then 0 else analyze_order_flow ts)
                  in bind_outcome
                       (estimate_probability norm_cdf current_price target_price direction rsi
                          vwap_deviation volatility momentum order_flow)
                       (\<lambda>our_prob.
                          Returns (Some (btc_signal market target_price direction current_price
                            our_prob market_probability_arg
                            [(''rsi'', rsi), (''vwap_deviation'', vwap_deviation), (''volatility'', volatility), (''momentum'', momentum), (''order_flow'', order_flow)]))))))))))"
  unfolding analyze_market_def vwap_deviation_feature_def by (simp only: btc_tail)


lemma btc_signal_fields:
  "btc_target_price (btc_signal market target_price direction current_price raw m readings) = target_price"
  "btc_direction (btc_signal market target_price direction current_price raw m readings) = direction"
  "btc_current_price (btc_signal market target_price direction current_price raw m readings) = current_price"
  "components (btc_signal market target_price direction current_price raw m readings) = readings"
  by (simp_all add: btc_signal_def Let_def split: prod.splits)

lemma analyze_market_inv:
  assumes "analyze_market norm_cdf market m parsed price klines trades = Returns (Some s)"
  shows "\<exists>target_price direction current_price rows rsi vwap volatility momentum order_flow raw.
           parsed = Some (target_price, direction) \<and> price = Some current_price
           \<and> klines = Some rows \<and> 20 \<le> length rows
           \<and> calculate_rsi (map close rows) BTC_RSI_PERIOD = Some rsi
           \<and> calculate_vwap (map high rows) (map low rows) (map close rows) (map volume rows)
               = Returns vwap
           \<and> calculate_volatility (map close rows) 20 = Returns volatility
           \<and> calculate_momentum (map close rows) 10 = Returns momentum
           \<and> estimate_probability norm_cdf current_price target_price direction rsi
                (vwap_deviation_feature current_price vwap) volatility momentum order_flow
               = Returns raw
           \<and> s = btc_signal market target_price direction current_price raw m
                 [(''rsi'', rsi), (''vwap_deviation'', vwap_deviation_feature current_price vwap),
                  (''volatility'', volatility), (''momentum'', momentum),
                  (''order_flow'', order_flow)]"
  using assms unfolding analyze_market_folded
  by (auto simp: bind_outcome_def or_unmodelled_def Let_def
        split: option.splits outcome.splits if_splits prod.splits)

lemma analyze_market_emits:
  assumes "20 \<le> length rows"
    and "calculate_rsi (map close rows) BTC_RSI_PERIOD = Some rsi"
    and "calculate_vwap (map high rows) (map low rows) (map close rows) (map volume rows)
           = Returns vwap"
    and "calculate_volatility (map close rows) 20 = Returns volatility"
    and "calculate_momentum (map close rows) 10 = Returns momentum"
    and "estimate_probability norm_cdf current_price target_price direction rsi
           (vwap_deviation_feature current_price vwap) volatility momentum
           (case trades of None \<Rightarrow> 0 | Some ts \<Rightarrow> if ts = [] then 0 else analyze_order_flow ts)
           = Returns raw"
  shows "analyze_market norm_cdf market m (Some (target_price, direction)) (Some current_price)
           (Some rows) trades
         = Returns (Some (btc_signal market target_price direction current_price raw m
             [(''rsi'', rsi), (''vwap_deviation'', vwap_deviation_feature current_price vwap),
              (''volatility'', volatility), (''momentum'', momentum),
              (''order_flow'',
               (case trades of None \<Rightarrow> 0 | Some ts \<Rightarrow> if ts = [] then 0 else analyze_order_flow ts))]))"
  using assms unfolding analyze_market_folded
  by (simp add: bind_outcome_def or_unmodelled_def Let_def)


section \<open>Indicators\<close>


lemma py_last_map: "py_last k (map f xs) = map f (py_last k xs)"
  by (simp add: py_last_def drop_map)

lemma calculate_rsi_short:
  "int (length closes) < period + 1 \<Longrightarrow> calculate_rsi closes period = Some 50"
  by (simp add: calculate_rsi_def)

lemma calculate_rsi_no_losses:
  assumes "period + 1 \<le> int (length closes)"
    and "\<forall>d \<in> set (py_last period (np_diff closes)). 0 \<le> d"
    and "py_last period (np_diff closes) \<noteq> []"
  shows "calculate_rsi closes period = Some 100"
proof -
  let ?w = "py_last period (np_diff closes)"
  have "map (\<lambda>d. if d < 0 then - d else 0) ?w = map (\<lambda>d. 0) ?w"
    using assms(2) by (intro map_cong) auto
  then have "sum_list (map (\<lambda>d. if d < 0 then - d else 0) ?w) = sum_list (map (\<lambda>d. 0) ?w)"
    by (simp only:)
  then have "sum_list (map (\<lambda>d. if d < 0 then - d else 0) ?w) = 0" by simp
  then have l: "np_mean (py_last period (map (\<lambda>d. if d < 0 then - d else 0) (np_diff closes))) = Some 0"
    using assms(3) by (simp add: np_mean_def py_last_map)
  obtain g where g: "np_mean (py_last period (map (\<lambda>d. if d > 0 then d else 0) (np_diff closes))) = Some g"
    using assms(3) by (simp add: np_mean_def py_last_map)
  show ?thesis using assms(1) l g by (simp add: calculate_rsi_def Let_def)
qed

lemma py_last_window:
  "length xs = n \<Longrightarrow> py_last (int (min 60 n)) xs = drop (n - 60) xs"
  by (auto simp: py_last_def min_def)

lemma py_index_last: "xs \<noteq> [] \<Longrightarrow> py_index xs (- 1) = Returns (last xs)"
  by (simp add: py_index_def Let_def last_conv_nth nat_diff_distrib' of_nat_diff)

lemma calculate_vwap_no_volume:
  assumes "length highs = n" "length lows = n" "length closes = n" "length volumes = n"
    and "sum_list (drop (n - 60) volumes) = 0"
  shows "calculate_vwap highs lows closes volumes =
           (if closes = [] then Raises IndexError else Returns (last closes))"
proof -
  have "length (map (\<lambda>(h, l, c). (h + l + c) / 3) (zip highs (zip lows closes))) = n"
    using assms by simp
  then show ?thesis
    using assms py_last_window [of volumes n]
    by (simp add: calculate_vwap_def Let_def py_index_last del: length_map)
       (simp add: py_index_def)
qed

lemma estimate_probability_returns:
  assumes "current_price \<noteq> 0" and "direction = ''above'' \<longrightarrow> norm_cdf \<noteq> None"
  shows "\<exists>p. estimate_probability norm_cdf current_price target_price direction rsi vwap_deviation
             volatility momentum order_flow = Returns p"
  using assms unfolding estimate_probability_def
  by (auto simp: bind_outcome_def Let_def split: option.splits)

text \<open>The indicators of twenty idle bars.\<close>


lemma idle_closes: "map close idle_klines = replicate 20 100"
  and idle_highs: "map high idle_klines = replicate 20 100"
  and idle_lows: "map low idle_klines = replicate 20 100"
  and idle_volumes: "map volume idle_klines = replicate 20 0"
  by (simp_all add: idle_klines_def)

lemma idle_rsi: "calculate_rsi (replicate 20 100) BTC_RSI_PERIOD = Some 100"
  by (simp add: calculate_rsi_def BTC_RSI_PERIOD_def np_diff_def py_last_def np_mean_def
        sum_list_replicate Let_def)

lemma idle_vwap:
  "calculate_vwap (replicate 20 100) (replicate 20 100) (replicate 20 100) (replicate 20 0)
     = Returns 100"
  using calculate_vwap_no_volume [of "replicate 20 100" 20 "replicate 20 100" "replicate 20 100"
      "replicate 20 0"]
  by (simp add: sum_list_replicate)

lemma idle_volatility: "calculate_volatility (replicate 20 100) 20 = Returns 0"
  by (simp add: calculate_volatility_def Let_def py_last_def np_diff_def np_std_def np_mean_def
        sum_list_replicate or_unmodelled_def list_all_iff)

lemma idle_momentum: "calculate_momentum (replicate 20 100) 10 = Returns 0"
  by (simp add: calculate_momentum_def py_index_def bind_outcome_def Let_def)

section \<open>The sample runs\<close>


lemma idle_estimate:
  "\<exists>raw. estimate_probability None 101 2000 ''below'' 100 (vwap_deviation_feature 101 100) 0 0 0
          = Returns raw"
  by (rule estimate_probability_returns) simp_all

lemma idle_analysis:
  assumes "estimate_probability None 101 2000 ''below'' 100 (vwap_deviation_feature 101 100) 0 0 0
             = Returns raw"
  shows "analyze_market None sample_market m (Some (2000, ''below'')) (Some 101)
           (Some idle_klines) None
         = Returns (Some (btc_signal sample_market 2000 ''below'' 101 raw m
             [(''rsi'', 100), (''vwap_deviation'', vwap_deviation_feature 101 100),
              (''volatility'', 0), (''momentum'', 0), (''order_flow'', 0)]))"
  using analyze_market_emits [of idle_klines 100 100 0 0 None 101 2000 "''below''" None raw
      sample_market m] assms
  by (simp add: idle_closes idle_highs idle_lows idle_volumes idle_rsi idle_vwap idle_volatility
        idle_momentum idle_klines_def)




section \<open>Bounds of the probability estimates\<close>











section \<open>The momentum oscillator\<close>

text \<open>
  Claim C8. \<open>_calculate_rsi\<close> returns 50 when fewer than \<open>period + 1\<close> closes are supplied.
  With at least \<open>period + 1\<close> closes it returns 100 when every delta in the averaging
  window \<open>deltas[-period:]\<close> is non-negative and one is positive.
\<close>


theorem rsi_extremes:
  "(int (length closes) < period + 1 \<longrightarrow> calculate_rsi closes period = Some 50)
   \<and> (period + 1 \<le> int (length closes)
        \<and> (\<forall>d \<in> set (py_last period (np_diff closes)). 0 \<le> d)
        \<and> (\<exists>d \<in> set (py_last period (np_diff closes)). 0 < d)
      \<longrightarrow> calculate_rsi closes period = Some 100)"
proof (intro conjI impI)
  assume "int (length closes) < period + 1"
  then show "calculate_rsi closes period = Some 50" by (rule calculate_rsi_short)
next
  assume a: "period + 1 \<le> int (length closes)
        \<and> (\<forall>d \<in> set (py_last period (np_diff closes)). 0 \<le> d)
        \<and> (\<exists>d \<in> set (py_last period (np_diff closes)). 0 < d)"
  then have "py_last period (np_diff closes) \<noteq> []" by auto
  with a show "calculate_rsi closes period = Some 100"
    by (intro calculate_rsi_no_losses) simp_all
qed

text \<open>
  Claim C8 on two inputs: one close with period 14 gives 50; the closes 1, 2, 2 with
  period 2 give 100.
\<close>


theorem rsi_extremes_witness:
  "int (length [1::real]) < 14 + 1 \<and> calculate_rsi [1] 14 = Some 50
   \<and> 2 + 1 \<le> int (length [1, 2, 2 :: real])
   \<and> py_last 2 (np_diff [1, 2, 2]) = [1, 0]
   \<and> calculate_rsi [1, 2, 2] 2 = Some 100"
proof -
  have w: "py_last 2 (np_diff [1, 2, 2]) = [1, 0]" by (simp add: py_last_def np_diff_def)
  show ?thesis
    using rsi_extremes [of "[1]" 14] rsi_extremes [of "[1, 2, 2]" 2] w by simp
qed

section \<open>The volume-weighted deviation without volume\<close>

text \<open>
  Claim C6 fails on the code. Twenty bars closing at 100 traded no volume; at a current
  price of 101 the deviation feature of the signal is 0.01, not 0: \<open>_calculate_vwap\<close>
  returns the last close when the total volume is 0, and the deviation is taken from it.
\<close>


theorem zero_volume_deviation_not_zero:
  "\<exists>s. analyze_market None sample_market (5 / 10) (Some (2000, ''below'')) (Some 101)
          (Some idle_klines) None = Returns (Some s)
       \<and> sum_list (map volume idle_klines) = 0
       \<and> map_of (components s) ''vwap_deviation'' = Some (1 / 100)"
proof -
  obtain raw where e: "estimate_probability None 101 2000 ''below'' 100
      (vwap_deviation_feature 101 100) 0 0 0 = Returns raw"
    using idle_estimate by blast
  have v: "vwap_deviation_feature 101 100 = 1 / 100" by (simp add: vwap_deviation_feature_def)
  have z: "sum_list (map volume idle_klines) = 0" by (simp add: idle_volumes sum_list_replicate)
  show ?thesis
    using idle_analysis [OF e, of "5 / 10"] v z by (simp add: btc_signal_fields)
qed

lemma analyze_market_no_volume:
  assumes "analyze_market norm_cdf market m parsed price (Some rows) trades = Returns (Some s)"
    and "sum_list (map volume (drop (length rows - 60) rows)) = 0"
  shows "map_of (components s) ''vwap_deviation''
           = Some (if close (last rows) > 0
                   then (btc_current_price s - close (last rows)) / close (last rows) else 0)"
proof -
  from analyze_market_inv [OF assms(1)]
  obtain target_price direction current_price rsi vwap volatility momentum order_flow raw
    where l: "20 \<le> length rows"
      and v: "calculate_vwap (map high rows) (map low rows) (map close rows) (map volume rows)
                = Returns vwap"
      and s: "s = btc_signal market target_price direction current_price raw m
                 [(''rsi'', rsi), (''vwap_deviation'', vwap_deviation_feature current_price vwap),
                  (''volatility'', volatility), (''momentum'', momentum),
                  (''order_flow'', order_flow)]"
    by blast
  have ne: "rows \<noteq> []" using l by auto
  have "calculate_vwap (map high rows) (map low rows) (map close rows) (map volume rows)
          = Returns (last (map close rows))"
    using calculate_vwap_no_volume [of "map high rows" "length rows" "map low rows"
        "map close rows" "map volume rows"] assms(2) ne
    by (simp add: drop_map)
  then have "vwap = close (last rows)" using v ne by (simp add: last_map)
  then show ?thesis
    unfolding s by (simp add: btc_signal_fields vwap_deviation_feature_def)
qed

text \<open>
  Claim C6, amended. When the total volume over the VWAP lookback (the last 60 bars, or
  all of them when there are fewer) is 0, \<open>_calculate_vwap\<close> returns the last close
  (and raises \<open>IndexError\<close> on no bars), and the deviation feature of the signal is
  \<open>(current_price - last_close) / last_close\<close> when the last close is positive and 0
  otherwise.
\<close>


theorem zero_volume_deviation:
  "(length highs = n \<and> length lows = n \<and> length closes = n \<and> length volumes = n
      \<and> sum_list (drop (n - 60) volumes) = 0 \<longrightarrow>
      calculate_vwap highs lows closes volumes
        = (if closes = [] then Raises IndexError else Returns (last closes)))
   \<and> (analyze_market norm_cdf market m parsed price (Some rows) trades = Returns (Some s)
      \<and> sum_list (map volume (drop (length rows - 60) rows)) = 0 \<longrightarrow>
      map_of (components s) ''vwap_deviation''
        = Some (if close (last rows) > 0
                then (btc_current_price s - close (last rows)) / close (last rows) else 0))"
proof (intro conjI impI)
  assume "length highs = n \<and> length lows = n \<and> length closes = n \<and> length volumes = n
      \<and> sum_list (drop (n - 60) volumes) = 0"
  then have h: "length highs = n" "length lows = n" "length closes = n" "length volumes = n"
      "sum_list (drop (n - 60) volumes) = 0"
    by blast+
  show "calculate_vwap highs lows closes volumes
        = (if closes = [] then Raises IndexError else Returns (last closes))"
    by (rule calculate_vwap_no_volume [OF h])
next
  assume "analyze_market norm_cdf market m parsed price (Some rows) trades = Returns (Some s)
      \<and> sum_list (map volume (drop (length rows - 60) rows)) = 0"
  then have h: "analyze_market norm_cdf market m parsed price (Some rows) trades = Returns (Some s)"
      "sum_list (map volume (drop (length rows - 60) rows)) = 0"
    by blast+
  show "map_of (components s) ''vwap_deviation''
        = Some (if close (last rows) > 0
                then (btc_current_price s - close (last rows)) / close (last rows) else 0)"
    by (rule analyze_market_no_volume [OF h])
qed

text \<open>
  Claim C6, amended, on the idle bars: at a current price of 101 the feature is
  \<open>(101 - 100) / 100\<close>.
\<close>


theorem zero_volume_deviation_witness:
  "length (replicate 20 (100::real)) = 20 \<and> sum_list (drop (20 - 60) (replicate 20 (0::real))) = 0
   \<and> calculate_vwap (replicate 20 100) (replicate 20 100) (replicate 20 100) (replicate 20 0)
       = Returns 100
   \<and> (\<exists>s. analyze_market None sample_market (5 / 10) (Some (2000, ''below'')) (Some 101)
          (Some idle_klines) None = Returns (Some s)
        \<and> sum_list (map volume (drop (length idle_klines - 60) idle_klines)) = 0
        \<and> btc_current_price s = 101 \<and> close (last idle_klines) = 100
        \<and> map_of (components s) ''vwap_deviation'' = Some ((101 - 100) / 100))"
proof -
  obtain raw where e: "estimate_probability None 101 2000 ''below'' 100
      (vwap_deviation_feature 101 100) 0 0 0 = Returns raw"
    using idle_estimate by blast
  let ?s = "btc_signal sample_market 2000 ''below'' 101 raw (5 / 10)
             [(''rsi'', 100), (''vwap_deviation'', vwap_deviation_feature 101 100),
              (''volatility'', 0), (''momentum'', 0), (''order_flow'', 0)]"
  note a = idle_analysis [OF e, of "5 / 10"]
  have z: "sum_list (map volume (drop (length idle_klines - 60) idle_klines)) = 0"
    by (simp add: idle_klines_def sum_list_replicate)
  have c: "btc_current_price ?s = 101" by (simp add: btc_signal_fields)
  have l: "close (last idle_klines) = 100" by (simp add: idle_klines_def)
  note T = zero_volume_deviation [of "replicate 20 100" 20 "replicate 20 100" "replicate 20 100" "replicate 20 0"
      None sample_market "5 / 10" "Some (2000, ''below'')" "Some 101" idle_klines None ?s]
  have 1: "calculate_vwap (replicate 20 100) (replicate 20 100) (replicate 20 100) (replicate 20 0)
       = Returns 100"
    using T by (simp add: sum_list_replicate)
  have 2: "map_of (components ?s) ''vwap_deviation'' = Some ((101 - 100) / 100)"
    using T a z c l by simp
  show ?thesis using 1 2 a z c l by (auto simp: sum_list_replicate)
qed

section \<open>The recommended side\<close>







end
